theory Spec2Isabelle
  imports Main
begin

section \<open>The metrics taxonomy of package pbsmetrics (metrics.go)\<close>

text \<open>
  The package declares ten string-backed label types, their constants, one accessor per
  type that returns a freshly built slice of the constants, the label structs and the
  \<open>MetricsEngine\<close> interface. The embedding follows the file top to bottom.
\<close>

subsection \<open>The label types\<close>

text \<open>
  Go's \<^verbatim>\<open>type DemandSource string\<close> declares a new type whose values are strings
  and that is distinct from every other named type. Each one is a datatype with a single
  constructor, named as the Go conversion \<^verbatim>\<open>DemandSource("web")\<close> is.
\<close>

datatype DemandSource = DemandSource string

datatype ImpMediaType = ImpMediaType string

datatype RequestType = RequestType string

datatype Browser = Browser string

datatype CookieFlag = CookieFlag string

datatype RequestStatus = RequestStatus string

datatype AdapterBid = AdapterBid string

datatype AdapterError = AdapterError string

datatype CacheResult = CacheResult string

datatype RequestAction = RequestAction string

subsection \<open>The label structs\<close>

text \<open>
  A field \<^verbatim>\<open>F\<close> of struct \<^verbatim>\<open>Labels\<close> or \<^verbatim>\<open>AdapterLabels\<close> is the selector
  \<open>Labels_F\<close> or \<open>AdapterLabels_F\<close>: the two structs share field names, and several
  field names are also names of types and of accessors of the package. The fields of
  \<^verbatim>\<open>ImpLabels\<close> keep their names.

  \<^verbatim>\<open>openrtb_ext.BidderName\<close> is declared in another package; it is the type
  parameter \<open>'bidder\<close>.

  \<^verbatim>\<open>map[AdapterError]struct{}\<close> is a Go map whose values are of the one-element type.
  A Go map is either nil, the zero value of every map type, or a table; \<open>None\<close> is the
  nil map and \<open>Some f\<close> the table \<open>f\<close>. Go has no \<^verbatim>\<open>==\<close> between two maps:
  equality here is \<^verbatim>\<open>reflect.DeepEqual\<close>, which holds of two maps when both are nil
  or both are tables with the same keys and equal values, so a nil map and an empty table
  differ. \<open>gomap_keys\<close> is what \<^verbatim>\<open>range\<close> visits, nothing in a nil map.
  \<open>gomap_assign k m\<close> is the statement \<^verbatim>\<open>m[k] = struct{}{}\<close>, which panics on a
  nil map and otherwise stores the key.
\<close>

datatype panic = AssignToNilMap

type_synonym 'k gomap = "('k \<rightharpoonup> unit) option"

fun gomap_keys :: "'k gomap \<Rightarrow> 'k set" where
  "gomap_keys None = {}"
| "gomap_keys (Some f) = dom f"

fun gomap_assign :: "'k \<Rightarrow> 'k gomap \<Rightarrow> panic + 'k gomap" where
  "gomap_assign k None = Inl AssignToNilMap"
| "gomap_assign k (Some f) = Inr (Some (f(k \<mapsto> ())))"

record Labels =
  Labels_Source :: DemandSource
  Labels_RType :: RequestType
  Labels_PubID :: string
  Labels_Browser :: Browser
  Labels_CookieFlag :: CookieFlag
  Labels_RequestStatus :: RequestStatus

record 'bidder AdapterLabels =
  AdapterLabels_Source :: DemandSource
  AdapterLabels_RType :: RequestType
  AdapterLabels_Adapter :: 'bidder
  AdapterLabels_PubID :: string
  AdapterLabels_Browser :: Browser
  AdapterLabels_CookieFlag :: CookieFlag
  AdapterLabels_AdapterBids :: AdapterBid
  AdapterLabels_AdapterErrors :: "AdapterError gomap"

record ImpLabels =
  BannerImps :: bool
  VideoImps :: bool
  AudioImps :: bool
  NativeImps :: bool

text \<open>
  The file declares no constructor for \<^verbatim>\<open>Labels\<close>. A caller builds one with a
  composite literal, and Go gives every field the literal leaves out the zero value of its
  type, the empty string for a string and for a string-backed type. \<open>Labels_zero\<close> is
  \<^verbatim>\<open>Labels{}\<close>; a literal that names some fields is \<open>Labels_zero\<close> updated at
  those fields.
\<close>

definition Labels_zero :: Labels where
  "Labels_zero =
     \<lparr>Labels_Source = DemandSource '''', Labels_RType = RequestType '''',
      Labels_PubID = '''', Labels_Browser = Browser '''',
      Labels_CookieFlag = CookieFlag '''', Labels_RequestStatus = RequestStatus ''''\<rparr>"

text \<open>
  \<open>AdapterLabels_zero b0\<close> is \<^verbatim>\<open>AdapterLabels{}\<close>, where \<open>b0\<close> is the zero value of
  the bidder-name type. Its \<open>AdapterErrors\<close> is the nil map.
\<close>

definition AdapterLabels_zero :: "'bidder \<Rightarrow> 'bidder AdapterLabels" where
  "AdapterLabels_zero b0 =
     \<lparr>AdapterLabels_Source = DemandSource '''', AdapterLabels_RType = RequestType '''',
      AdapterLabels_Adapter = b0, AdapterLabels_PubID = '''',
      AdapterLabels_Browser = Browser '''', AdapterLabels_CookieFlag = CookieFlag '''',
      AdapterLabels_AdapterBids = AdapterBid '''', AdapterLabels_AdapterErrors = None\<rparr>"

subsection \<open>Slices built by a call\<close>

text \<open>
  Every accessor returns a composite literal \<^verbatim>\<open>[]T{...}\<close>, which allocates a new
  backing array at each call. The heap of backing arrays of one element type is the list
  of the arrays allocated so far, an address is an index into it, and a caller may
  overwrite any array it holds. \<open>new_slice\<close> allocates; \<open>returned\<close> reads the
  elements of the slice a call has returned, in the heap the call has left. An address
  outside the heap, which no call returns, reads as the nil slice.
\<close>

type_synonym 'a heap = "'a list list"

definition new_slice :: "'a list \<Rightarrow> 'a heap \<Rightarrow> nat \<times> 'a heap" where
  "new_slice xs h = (length h, h @ [xs])"

definition returned :: "nat \<times> 'a heap \<Rightarrow> 'a list" where
  "returned r = (if fst r < length (snd r) then snd r ! fst r else [])"

subsection \<open>The constants and their accessors\<close>

definition PublisherUnknown :: string where
  "PublisherUnknown = ''unknown''"

definition DemandWeb :: DemandSource where
  "DemandWeb = DemandSource ''web''"

definition DemandApp :: DemandSource where
  "DemandApp = DemandSource ''app''"

definition DemandUnknown :: DemandSource where
  "DemandUnknown = DemandSource ''unknown''"

definition DemandTypes :: "DemandSource heap \<Rightarrow> nat \<times> DemandSource heap" where
  "DemandTypes h = new_slice [DemandWeb, DemandApp, DemandUnknown] h"

definition ReqTypeLegacy :: RequestType where
  "ReqTypeLegacy = RequestType ''legacy''"

definition ReqTypeORTB2Web :: RequestType where
  "ReqTypeORTB2Web = RequestType ''openrtb2-web''"

definition ReqTypeORTB2App :: RequestType where
  "ReqTypeORTB2App = RequestType ''openrtb2-app''"

definition ReqTypeAMP :: RequestType where
  "ReqTypeAMP = RequestType ''amp''"

definition ReqTypeVideo :: RequestType where
  "ReqTypeVideo = RequestType ''video''"

definition ImpTypeBanner :: ImpMediaType where
  "ImpTypeBanner = ImpMediaType ''banner''"

definition ImpTypeVideo :: ImpMediaType where
  "ImpTypeVideo = ImpMediaType ''video''"

definition ImpTypeAudio :: ImpMediaType where
  "ImpTypeAudio = ImpMediaType ''audio''"

definition ImpTypeNative :: ImpMediaType where
  "ImpTypeNative = ImpMediaType ''native''"

definition RequestTypes :: "RequestType heap \<Rightarrow> nat \<times> RequestType heap" where
  "RequestTypes h =
     new_slice [ReqTypeLegacy, ReqTypeORTB2Web, ReqTypeORTB2App, ReqTypeAMP, ReqTypeVideo] h"

definition ImpTypes :: "ImpMediaType heap \<Rightarrow> nat \<times> ImpMediaType heap" where
  "ImpTypes h = new_slice [ImpTypeBanner, ImpTypeVideo, ImpTypeAudio, ImpTypeNative] h"

definition BrowserSafari :: Browser where
  "BrowserSafari = Browser ''safari''"

definition BrowserOther :: Browser where
  "BrowserOther = Browser ''other''"

definition BrowserTypes :: "Browser heap \<Rightarrow> nat \<times> Browser heap" where
  "BrowserTypes h = new_slice [BrowserSafari, BrowserOther] h"

definition CookieFlagYes :: CookieFlag where
  "CookieFlagYes = CookieFlag ''exists''"

definition CookieFlagNo :: CookieFlag where
  "CookieFlagNo = CookieFlag ''no''"

definition CookieFlagUnknown :: CookieFlag where
  "CookieFlagUnknown = CookieFlag ''unknown''"

definition CookieTypes :: "CookieFlag heap \<Rightarrow> nat \<times> CookieFlag heap" where
  "CookieTypes h = new_slice [CookieFlagYes, CookieFlagNo, CookieFlagUnknown] h"

definition RequestStatusOK :: RequestStatus where
  "RequestStatusOK = RequestStatus ''ok''"

definition RequestStatusBadInput :: RequestStatus where
  "RequestStatusBadInput = RequestStatus ''badinput''"

definition RequestStatusErr :: RequestStatus where
  "RequestStatusErr = RequestStatus ''err''"

definition RequestStatusNetworkErr :: RequestStatus where
  "RequestStatusNetworkErr = RequestStatus ''networkerr''"

definition RequestStatusBlacklisted :: RequestStatus where
  "RequestStatusBlacklisted = RequestStatus ''blacklistedacctorapp''"

definition RequestStatuses :: "RequestStatus heap \<Rightarrow> nat \<times> RequestStatus heap" where
  "RequestStatuses h =
     new_slice [RequestStatusOK, RequestStatusBadInput, RequestStatusErr,
                RequestStatusNetworkErr, RequestStatusBlacklisted] h"

definition AdapterBidPresent :: AdapterBid where
  "AdapterBidPresent = AdapterBid ''bid''"

definition AdapterBidNone :: AdapterBid where
  "AdapterBidNone = AdapterBid ''nobid''"

definition AdapterBids :: "AdapterBid heap \<Rightarrow> nat \<times> AdapterBid heap" where
  "AdapterBids h = new_slice [AdapterBidPresent, AdapterBidNone] h"

definition AdapterErrorBadInput :: AdapterError where
  "AdapterErrorBadInput = AdapterError ''badinput''"

definition AdapterErrorBadServerResponse :: AdapterError where
  "AdapterErrorBadServerResponse = AdapterError ''badserverresponse''"

definition AdapterErrorTimeout :: AdapterError where
  "AdapterErrorTimeout = AdapterError ''timeout''"

definition AdapterErrorFailedToRequestBids :: AdapterError where
  "AdapterErrorFailedToRequestBids = AdapterError ''failedtorequestbid''"

definition AdapterErrorUnknown :: AdapterError where
  "AdapterErrorUnknown = AdapterError ''unknown_error''"

definition AdapterErrors :: "AdapterError heap \<Rightarrow> nat \<times> AdapterError heap" where
  "AdapterErrors h =
     new_slice [AdapterErrorBadInput, AdapterErrorBadServerResponse, AdapterErrorTimeout,
                AdapterErrorFailedToRequestBids, AdapterErrorUnknown] h"

definition CacheHit :: CacheResult where
  "CacheHit = CacheResult ''hit''"

definition CacheMiss :: CacheResult where
  "CacheMiss = CacheResult ''miss''"

definition CacheResults :: "CacheResult heap \<Rightarrow> nat \<times> CacheResult heap" where
  "CacheResults h = new_slice [CacheHit, CacheMiss] h"

definition RequestActionSet :: RequestAction where
  "RequestActionSet = RequestAction ''set''"

definition RequestActionOptOut :: RequestAction where
  "RequestActionOptOut = RequestAction ''opt_out''"

definition RequestActionGDPR :: RequestAction where
  "RequestActionGDPR = RequestAction ''gdpr''"

definition RequestActionErr :: RequestAction where
  "RequestActionErr = RequestAction ''err''"

definition RequestActions :: "RequestAction heap \<Rightarrow> nat \<times> RequestAction heap" where
  "RequestActions h =
     new_slice [RequestActionSet, RequestActionOptOut, RequestActionGDPR, RequestActionErr] h"

subsection \<open>The recording interface\<close>

text \<open>
  \<^verbatim>\<open>MetricsEngine\<close> is an interface: a list of method signatures and no code. It is
  embedded as that list, one entry per method in the order of the declaration, with the
  parameter types and the result types of each. \<open>GoType\<close> has the types the signatures
  mention.
\<close>

datatype GoType =
  GoBool | GoInt | GoFloat64 | GoDuration
  | GoLabels | GoImpLabels | GoAdapterLabels | GoUserLabels
  | GoCacheResult | GoBidderName | GoBidType

record Method =
  method_name :: string
  method_params :: "GoType list"
  method_results :: "GoType list"

definition MetricsEngine :: "Method list" where
  "MetricsEngine =
     [\<lparr>method_name = ''RecordConnectionAccept'', method_params = [GoBool],
       method_results = []\<rparr>,
      \<lparr>method_name = ''RecordConnectionClose'', method_params = [GoBool],
       method_results = []\<rparr>,
      \<lparr>method_name = ''RecordRequest'', method_params = [GoLabels],
       method_results = []\<rparr>,
      \<lparr>method_name = ''RecordImps'', method_params = [GoImpLabels],
       method_results = []\<rparr>,
      \<lparr>method_name = ''RecordLegacyImps'', method_params = [GoLabels, GoInt],
       method_results = []\<rparr>,
      \<lparr>method_name = ''RecordRequestTime'', method_params = [GoLabels, GoDuration],
       method_results = []\<rparr>,
      \<lparr>method_name = ''RecordAdapterRequest'', method_params = [GoAdapterLabels],
       method_results = []\<rparr>,
      \<lparr>method_name = ''RecordAdapterPanic'', method_params = [GoAdapterLabels],
       method_results = []\<rparr>,
      \<lparr>method_name = ''RecordAdapterBidReceived'',
       method_params = [GoAdapterLabels, GoBidType, GoBool], method_results = []\<rparr>,
      \<lparr>method_name = ''RecordAdapterPrice'', method_params = [GoAdapterLabels, GoFloat64],
       method_results = []\<rparr>,
      \<lparr>method_name = ''RecordAdapterTime'', method_params = [GoAdapterLabels, GoDuration],
       method_results = []\<rparr>,
      \<lparr>method_name = ''RecordCookieSync'', method_params = [],
       method_results = []\<rparr>,
      \<lparr>method_name = ''RecordAdapterCookieSync'', method_params = [GoBidderName, GoBool],
       method_results = []\<rparr>,
      \<lparr>method_name = ''RecordUserIDSet'', method_params = [GoUserLabels],
       method_results = []\<rparr>,
      \<lparr>method_name = ''RecordStoredReqCacheResult'', method_params = [GoCacheResult, GoInt],
       method_results = []\<rparr>,
      \<lparr>method_name = ''RecordStoredImpCacheResult'', method_params = [GoCacheResult, GoInt],
       method_results = []\<rparr>,
      \<lparr>method_name = ''RecordPrebidCacheRequestTime'', method_params = [GoBool, GoDuration],
       method_results = []\<rparr>]"

section \<open>Properties\<close>

subsection \<open>What a call returns\<close>

lemma returned_new_slice: "returned (new_slice xs h) = xs"
  by (simp add: returned_def new_slice_def)

lemmas accessor_defs =
  DemandTypes_def RequestTypes_def ImpTypes_def BrowserTypes_def CookieTypes_def
  RequestStatuses_def AdapterBids_def AdapterErrors_def CacheResults_def RequestActions_def

lemmas constant_defs =
  DemandWeb_def DemandApp_def DemandUnknown_def
  ReqTypeLegacy_def ReqTypeORTB2Web_def ReqTypeORTB2App_def ReqTypeAMP_def ReqTypeVideo_def
  ImpTypeBanner_def ImpTypeVideo_def ImpTypeAudio_def ImpTypeNative_def
  BrowserSafari_def BrowserOther_def
  CookieFlagYes_def CookieFlagNo_def CookieFlagUnknown_def
  RequestStatusOK_def RequestStatusBadInput_def RequestStatusErr_def
  RequestStatusNetworkErr_def RequestStatusBlacklisted_def
  AdapterBidPresent_def AdapterBidNone_def
  AdapterErrorBadInput_def AdapterErrorBadServerResponse_def AdapterErrorTimeout_def
  AdapterErrorFailedToRequestBids_def AdapterErrorUnknown_def
  CacheHit_def CacheMiss_def
  RequestActionSet_def RequestActionOptOut_def RequestActionGDPR_def RequestActionErr_def

text \<open>
  C8. At every call, whatever the heap, \<open>RequestTypes\<close> returns the five request types
  in the order legacy, openrtb2-web, openrtb2-app, amp, video, and these are the five
  declared constants.
\<close>

theorem RequestTypes_stable_order:
  "returned (RequestTypes h) =
     [RequestType ''legacy'', RequestType ''openrtb2-web'', RequestType ''openrtb2-app'',
      RequestType ''amp'', RequestType ''video'']
   \<and> returned (RequestTypes h) =
     [ReqTypeLegacy, ReqTypeORTB2Web, ReqTypeORTB2App, ReqTypeAMP, ReqTypeVideo]"
  by (simp add: RequestTypes_def returned_new_slice constant_defs)

text \<open>
  C1, as the code has it. The values \<open>RequestStatuses\<close> returns are the five declared
  constants, whose strings are ok, badinput, err, networkerr and blacklistedacctorapp.
\<close>

theorem RequestStatuses_values:
  "set (returned (RequestStatuses h)) =
     {RequestStatus ''ok'', RequestStatus ''badinput'', RequestStatus ''err'',
      RequestStatus ''networkerr'', RequestStatus ''blacklistedacctorapp''}
   \<and> set (returned (RequestStatuses h)) =
     {RequestStatusOK, RequestStatusBadInput, RequestStatusErr, RequestStatusNetworkErr,
      RequestStatusBlacklisted}"
  by (simp add: RequestStatuses_def returned_new_slice constant_defs)

text \<open>
  C1, as the specification words it, fails: the value set of \<open>RequestStatuses\<close> is not
  the set with blacklisted-account-or-app as its fifth value.
\<close>

theorem RequestStatuses_spec_values_counterexample:
  "set (returned (RequestStatuses [])) \<noteq>
     {RequestStatus ''ok'', RequestStatus ''badinput'', RequestStatus ''err'',
      RequestStatus ''networkerr'', RequestStatus ''blacklisted-account-or-app''}"
proof
  assume eq: "set (returned (RequestStatuses [])) =
     {RequestStatus ''ok'', RequestStatus ''badinput'', RequestStatus ''err'',
      RequestStatus ''networkerr'', RequestStatus ''blacklisted-account-or-app''}"
  have "RequestStatus ''blacklistedacctorapp'' \<in> set (returned (RequestStatuses []))"
    by (simp add: RequestStatuses_def returned_new_slice RequestStatusBlacklisted_def)
  with eq show False
    by simp
qed

text \<open>
  C2, as the code has it. The values \<open>AdapterErrors\<close> returns are the five declared
  constants, whose strings are badinput, badserverresponse, timeout, failedtorequestbid
  and unknown_error.
\<close>

theorem AdapterErrors_values:
  "set (returned (AdapterErrors h)) =
     {AdapterError ''badinput'', AdapterError ''badserverresponse'', AdapterError ''timeout'',
      AdapterError ''failedtorequestbid'', AdapterError ''unknown_error''}
   \<and> set (returned (AdapterErrors h)) =
     {AdapterErrorBadInput, AdapterErrorBadServerResponse, AdapterErrorTimeout,
      AdapterErrorFailedToRequestBids, AdapterErrorUnknown}"
  by (simp add: AdapterErrors_def returned_new_slice constant_defs)

text \<open>
  C2, as the specification words it, fails: the value set of \<open>AdapterErrors\<close> is not the
  set with unknown as its fifth value.
\<close>

theorem AdapterErrors_spec_values_counterexample:
  "set (returned (AdapterErrors [])) \<noteq>
     {AdapterError ''badinput'', AdapterError ''badserverresponse'', AdapterError ''timeout'',
      AdapterError ''failedtorequestbid'', AdapterError ''unknown''}"
proof
  assume eq: "set (returned (AdapterErrors [])) =
     {AdapterError ''badinput'', AdapterError ''badserverresponse'', AdapterError ''timeout'',
      AdapterError ''failedtorequestbid'', AdapterError ''unknown''}"
  have "AdapterError ''unknown_error'' \<in> set (returned (AdapterErrors []))"
    by (simp add: AdapterErrors_def returned_new_slice AdapterErrorUnknown_def)
  with eq show False
    by simp
qed

text \<open>
  C4. For each of the ten label types, the set of values its accessor returns is the set
  of the constants declared for the type: none is missing and none is added.
\<close>

theorem accessors_exhaustive:
  "set (returned (DemandTypes h1)) = {DemandWeb, DemandApp, DemandUnknown}
   \<and> set (returned (RequestTypes h2)) =
       {ReqTypeLegacy, ReqTypeORTB2Web, ReqTypeORTB2App, ReqTypeAMP, ReqTypeVideo}
   \<and> set (returned (ImpTypes h3)) =
       {ImpTypeBanner, ImpTypeVideo, ImpTypeAudio, ImpTypeNative}
   \<and> set (returned (BrowserTypes h4)) = {BrowserSafari, BrowserOther}
   \<and> set (returned (CookieTypes h5)) = {CookieFlagYes, CookieFlagNo, CookieFlagUnknown}
   \<and> set (returned (RequestStatuses h6)) =
       {RequestStatusOK, RequestStatusBadInput, RequestStatusErr, RequestStatusNetworkErr,
        RequestStatusBlacklisted}
   \<and> set (returned (AdapterBids h7)) = {AdapterBidPresent, AdapterBidNone}
   \<and> set (returned (AdapterErrors h8)) =
       {AdapterErrorBadInput, AdapterErrorBadServerResponse, AdapterErrorTimeout,
        AdapterErrorFailedToRequestBids, AdapterErrorUnknown}
   \<and> set (returned (CacheResults h9)) = {CacheHit, CacheMiss}
   \<and> set (returned (RequestActions h10)) =
       {RequestActionSet, RequestActionOptOut, RequestActionGDPR, RequestActionErr}"
  by (simp add: accessor_defs returned_new_slice)

text \<open>
  C9. Each accessor returns the same list at every call: the lists returned from any two
  heaps are equal, so no earlier call and no write of a caller into a slice it was given
  changes what a later call returns.
\<close>

theorem accessors_constant:
  "(\<forall>h h'. returned (DemandTypes h) = returned (DemandTypes h'))
   \<and> (\<forall>h h'. returned (RequestTypes h) = returned (RequestTypes h'))
   \<and> (\<forall>h h'. returned (ImpTypes h) = returned (ImpTypes h'))
   \<and> (\<forall>h h'. returned (BrowserTypes h) = returned (BrowserTypes h'))
   \<and> (\<forall>h h'. returned (CookieTypes h) = returned (CookieTypes h'))
   \<and> (\<forall>h h'. returned (RequestStatuses h) = returned (RequestStatuses h'))
   \<and> (\<forall>h h'. returned (AdapterBids h) = returned (AdapterBids h'))
   \<and> (\<forall>h h'. returned (AdapterErrors h) = returned (AdapterErrors h'))
   \<and> (\<forall>h h'. returned (CacheResults h) = returned (CacheResults h'))
   \<and> (\<forall>h h'. returned (RequestActions h) = returned (RequestActions h'))"
  by (simp add: accessor_defs returned_new_slice)

text \<open>
  C10. Within each label type the declared constants are pairwise distinct, and the list
  each accessor returns has no element twice.
\<close>

theorem accessors_distinct:
  "distinct [DemandWeb, DemandApp, DemandUnknown]
   \<and> distinct (returned (DemandTypes h1))
   \<and> distinct [ReqTypeLegacy, ReqTypeORTB2Web, ReqTypeORTB2App, ReqTypeAMP, ReqTypeVideo]
   \<and> distinct (returned (RequestTypes h2))
   \<and> distinct [ImpTypeBanner, ImpTypeVideo, ImpTypeAudio, ImpTypeNative]
   \<and> distinct (returned (ImpTypes h3))
   \<and> distinct [BrowserSafari, BrowserOther]
   \<and> distinct (returned (BrowserTypes h4))
   \<and> distinct [CookieFlagYes, CookieFlagNo, CookieFlagUnknown]
   \<and> distinct (returned (CookieTypes h5))
   \<and> distinct [RequestStatusOK, RequestStatusBadInput, RequestStatusErr,
                RequestStatusNetworkErr, RequestStatusBlacklisted]
   \<and> distinct (returned (RequestStatuses h6))
   \<and> distinct [AdapterBidPresent, AdapterBidNone]
   \<and> distinct (returned (AdapterBids h7))
   \<and> distinct [AdapterErrorBadInput, AdapterErrorBadServerResponse, AdapterErrorTimeout,
                AdapterErrorFailedToRequestBids, AdapterErrorUnknown]
   \<and> distinct (returned (AdapterErrors h8))
   \<and> distinct [CacheHit, CacheMiss]
   \<and> distinct (returned (CacheResults h9))
   \<and> distinct [RequestActionSet, RequestActionOptOut, RequestActionGDPR, RequestActionErr]
   \<and> distinct (returned (RequestActions h10))"
  by (simp add: accessor_defs returned_new_slice constant_defs)

subsection \<open>The label structs\<close>

text \<open>
  C3, as the code has it. A \<open>Labels\<close> built by a literal that sets every field but
  \<open>PubID\<close> reads the empty string there. \<open>PublisherUnknown\<close> is the string unknown,
  which is not empty, and a \<open>Labels\<close> whose \<open>PubID\<close> the caller sets to
  \<open>PublisherUnknown\<close> reads unknown.
\<close>

theorem Labels_PubID_default:
  "Labels_PubID
     (Labels_zero\<lparr>Labels_Source := src, Labels_RType := rt, Labels_Browser := br,
                  Labels_CookieFlag := ck, Labels_RequestStatus := st\<rparr>) = ''''
   \<and> PublisherUnknown = ''unknown''
   \<and> PublisherUnknown \<noteq> ''''
   \<and> Labels_PubID (l\<lparr>Labels_PubID := PublisherUnknown\<rparr>) = ''unknown''"
  by (simp add: Labels_zero_def PublisherUnknown_def)

text \<open>
  C3, as the specification words it, fails: the \<open>PubID\<close> of \<^verbatim>\<open>Labels{}\<close>, which no
  caller has set, is the empty string and not \<open>PublisherUnknown\<close>.
\<close>

theorem Labels_PubID_unset_counterexample:
  "Labels_PubID Labels_zero \<noteq> PublisherUnknown \<and> Labels_PubID Labels_zero = ''''"
  by (simp add: Labels_zero_def PublisherUnknown_def)

lemma unit_map_eqI:
  fixes m1 m2 :: "'a \<rightharpoonup> unit"
  assumes "dom m1 = dom m2"
  shows "m1 = m2"
proof
  fix x
  have "x \<in> dom m1 \<longleftrightarrow> x \<in> dom m2"
    using assms by simp
  then have "m1 x = None \<longleftrightarrow> m2 x = None"
    unfolding domIff by blast
  then show "m1 x = m2 x"
    by (cases "m1 x"; cases "m2 x") simp_all
qed

lemma gomap_eqI:
  fixes ma mb :: "'k gomap"
  assumes "(ma = None) = (mb = None)" and "gomap_keys ma = gomap_keys mb"
  shows "ma = mb"
proof (cases ma)
  case None
  then show ?thesis using assms(1) by simp
next
  case (Some f)
  then obtain g where g: "mb = Some g"
    using assms(1) by (cases mb) simp_all
  have "dom f = dom g"
    using assms(2) Some g by simp
  then have "f = g"
    by (rule unit_map_eqI)
  then show ?thesis
    using Some g by simp
qed

lemma gomap_assign_nil: "gomap_assign k None = Inl AssignToNilMap"
  by simp

lemma gomap_assign_keys:
  "gomap_assign k ma = Inr mb \<Longrightarrow> gomap_keys mb = insert k (gomap_keys ma)"
  by (cases ma) auto

lemma gomap_assign_again: "gomap_assign k ma = Inr mb \<Longrightarrow> gomap_assign k mb = Inr mb"
  by (cases ma) auto

lemma gomap_assign_not_nil: "gomap_assign k ma = Inr mb \<Longrightarrow> mb \<noteq> None"
  by (cases ma) auto

text \<open>
  C5, as the code has it. The \<open>AdapterErrors\<close> field is a Go map used as a set of adapter
  errors. Two values whose fields are both nil or both tables, and hold the same errors,
  have equal fields, so the field carries no order and no multiplicity. The field may hold
  nothing, as the nil map and as the empty table. Recording an error in a table always
  succeeds and adds that error to what the table holds; recording an error that is there
  already changes nothing; and the order in which two errors are recorded does not matter.
\<close>

theorem AdapterErrors_field_is_set:
  fixes la lb l :: "'bidder AdapterLabels"
  shows
  "((AdapterLabels_AdapterErrors la = None) = (AdapterLabels_AdapterErrors lb = None)
      \<and> gomap_keys (AdapterLabels_AdapterErrors la) =
          gomap_keys (AdapterLabels_AdapterErrors lb)
      \<longrightarrow> AdapterLabels_AdapterErrors la = AdapterLabels_AdapterErrors lb)
   \<and> gomap_keys (AdapterLabels_AdapterErrors (l\<lparr>AdapterLabels_AdapterErrors := None\<rparr>)) = {}
   \<and> gomap_keys
         (AdapterLabels_AdapterErrors (l\<lparr>AdapterLabels_AdapterErrors := Some Map.empty\<rparr>)) = {}
   \<and> (AdapterLabels_AdapterErrors l \<noteq> None
        \<longrightarrow> (\<exists>m. gomap_assign e (AdapterLabels_AdapterErrors l) = Inr m))
   \<and> (gomap_assign e (AdapterLabels_AdapterErrors l) = Inr m1
        \<longrightarrow> gomap_keys m1 = insert e (gomap_keys (AdapterLabels_AdapterErrors l))
            \<and> gomap_assign e m1 = Inr m1)
   \<and> (gomap_assign e (AdapterLabels_AdapterErrors l) = Inr m1
        \<and> gomap_assign e' m1 = Inr m12
        \<and> gomap_assign e' (AdapterLabels_AdapterErrors l) = Inr m2
        \<and> gomap_assign e m2 = Inr m21
        \<longrightarrow> m12 = m21)"
proof (intro conjI impI)
  assume "(AdapterLabels_AdapterErrors la = None) = (AdapterLabels_AdapterErrors lb = None)
      \<and> gomap_keys (AdapterLabels_AdapterErrors la) =
          gomap_keys (AdapterLabels_AdapterErrors lb)"
  then show "AdapterLabels_AdapterErrors la = AdapterLabels_AdapterErrors lb"
    by (intro gomap_eqI) simp_all
next
  show "gomap_keys (AdapterLabels_AdapterErrors (l\<lparr>AdapterLabels_AdapterErrors := None\<rparr>)) = {}"
    by simp
next
  show "gomap_keys
         (AdapterLabels_AdapterErrors (l\<lparr>AdapterLabels_AdapterErrors := Some Map.empty\<rparr>)) = {}"
    by simp
next
  assume "AdapterLabels_AdapterErrors l \<noteq> None"
  then show "\<exists>m. gomap_assign e (AdapterLabels_AdapterErrors l) = Inr m"
    by (cases "AdapterLabels_AdapterErrors l") simp_all
next
  assume "gomap_assign e (AdapterLabels_AdapterErrors l) = Inr m1"
  then show "gomap_keys m1 = insert e (gomap_keys (AdapterLabels_AdapterErrors l))"
    by (rule gomap_assign_keys)
next
  assume "gomap_assign e (AdapterLabels_AdapterErrors l) = Inr m1"
  then show "gomap_assign e m1 = Inr m1"
    by (rule gomap_assign_again)
next
  assume a: "gomap_assign e (AdapterLabels_AdapterErrors l) = Inr m1
        \<and> gomap_assign e' m1 = Inr m12
        \<and> gomap_assign e' (AdapterLabels_AdapterErrors l) = Inr m2
        \<and> gomap_assign e m2 = Inr m21"
  have "gomap_keys m12 = insert e' (insert e (gomap_keys (AdapterLabels_AdapterErrors l)))"
    using a gomap_assign_keys [of e "AdapterLabels_AdapterErrors l" m1]
      gomap_assign_keys [of e' m1 m12]
    by simp
  moreover have
    "gomap_keys m21 = insert e (insert e' (gomap_keys (AdapterLabels_AdapterErrors l)))"
    using a gomap_assign_keys [of e' "AdapterLabels_AdapterErrors l" m2]
      gomap_assign_keys [of e m2 m21]
    by simp
  ultimately have keys: "gomap_keys m12 = gomap_keys m21"
    by auto
  have "m12 \<noteq> None" and "m21 \<noteq> None"
    using a by (auto dest: gomap_assign_not_nil)
  then have "(m12 = None) = (m21 = None)"
    by blast
  then show "m12 = m21"
    using keys by (rule gomap_eqI)
qed

text \<open>
  The theorem at \<^verbatim>\<open>AdapterLabels{}\<close> of a string-backed bidder name, with the field set
  to a table: the two tables compared hold a timeout and a bad input, recorded in the two
  possible orders into the empty table.
\<close>

theorem AdapterErrors_field_is_set_witness:
  "(AdapterLabels_AdapterErrors
      ((AdapterLabels_zero '''')\<lparr>AdapterLabels_AdapterErrors :=
         Some [AdapterErrorTimeout \<mapsto> (), AdapterErrorBadInput \<mapsto> ()]\<rparr>) = None) =
   (AdapterLabels_AdapterErrors
      ((AdapterLabels_zero '''')\<lparr>AdapterLabels_AdapterErrors :=
         Some [AdapterErrorBadInput \<mapsto> (), AdapterErrorTimeout \<mapsto> ()]\<rparr>) = None)
   \<and> gomap_keys (AdapterLabels_AdapterErrors
        ((AdapterLabels_zero '''')\<lparr>AdapterLabels_AdapterErrors :=
           Some [AdapterErrorTimeout \<mapsto> (), AdapterErrorBadInput \<mapsto> ()]\<rparr>)) =
      gomap_keys (AdapterLabels_AdapterErrors
        ((AdapterLabels_zero '''')\<lparr>AdapterLabels_AdapterErrors :=
           Some [AdapterErrorBadInput \<mapsto> (), AdapterErrorTimeout \<mapsto> ()]\<rparr>))
   \<and> AdapterLabels_AdapterErrors
        ((AdapterLabels_zero '''')\<lparr>AdapterLabels_AdapterErrors :=
           Some [AdapterErrorTimeout \<mapsto> (), AdapterErrorBadInput \<mapsto> ()]\<rparr>) =
      AdapterLabels_AdapterErrors
        ((AdapterLabels_zero '''')\<lparr>AdapterLabels_AdapterErrors :=
           Some [AdapterErrorBadInput \<mapsto> (), AdapterErrorTimeout \<mapsto> ()]\<rparr>)
   \<and> AdapterLabels_AdapterErrors
        ((AdapterLabels_zero '''')\<lparr>AdapterLabels_AdapterErrors := Some Map.empty\<rparr>) \<noteq> None
   \<and> gomap_assign AdapterErrorTimeout
        (AdapterLabels_AdapterErrors
           ((AdapterLabels_zero '''')\<lparr>AdapterLabels_AdapterErrors := Some Map.empty\<rparr>)) =
      Inr (Some [AdapterErrorTimeout \<mapsto> ()])
   \<and> gomap_assign AdapterErrorBadInput (Some [AdapterErrorTimeout \<mapsto> ()]) =
      Inr (Some [AdapterErrorTimeout \<mapsto> (), AdapterErrorBadInput \<mapsto> ()])
   \<and> gomap_assign AdapterErrorBadInput
        (AdapterLabels_AdapterErrors
           ((AdapterLabels_zero '''')\<lparr>AdapterLabels_AdapterErrors := Some Map.empty\<rparr>)) =
      Inr (Some [AdapterErrorBadInput \<mapsto> ()])
   \<and> gomap_assign AdapterErrorTimeout (Some [AdapterErrorBadInput \<mapsto> ()]) =
      Inr (Some [AdapterErrorBadInput \<mapsto> (), AdapterErrorTimeout \<mapsto> ()])
   \<and> gomap_keys (Some [AdapterErrorTimeout \<mapsto> ()]) = {AdapterErrorTimeout}
   \<and> gomap_assign AdapterErrorTimeout (Some [AdapterErrorTimeout \<mapsto> ()]) =
      Inr (Some [AdapterErrorTimeout \<mapsto> ()])
   \<and> Some [AdapterErrorTimeout \<mapsto> (), AdapterErrorBadInput \<mapsto> ()] =
      Some [AdapterErrorBadInput \<mapsto> (), AdapterErrorTimeout \<mapsto> ()]"
proof -
  have k: "dom [AdapterErrorTimeout \<mapsto> (), AdapterErrorBadInput \<mapsto> ()] =
           dom [AdapterErrorBadInput \<mapsto> (), AdapterErrorTimeout \<mapsto> ()]"
    by auto
  show ?thesis
    using k AdapterErrors_field_is_set
      [where la = "(AdapterLabels_zero '''')\<lparr>AdapterLabels_AdapterErrors :=
                     Some [AdapterErrorTimeout \<mapsto> (), AdapterErrorBadInput \<mapsto> ()]\<rparr>"
         and lb = "(AdapterLabels_zero '''')\<lparr>AdapterLabels_AdapterErrors :=
                     Some [AdapterErrorBadInput \<mapsto> (), AdapterErrorTimeout \<mapsto> ()]\<rparr>"
         and l = "(AdapterLabels_zero '''')\<lparr>AdapterLabels_AdapterErrors := Some Map.empty\<rparr>"
         and e = AdapterErrorTimeout and e' = AdapterErrorBadInput
         and ?m1.0 = "Some [AdapterErrorTimeout \<mapsto> ()]"
         and ?m12.0 = "Some [AdapterErrorTimeout \<mapsto> (), AdapterErrorBadInput \<mapsto> ()]"
         and ?m2.0 = "Some [AdapterErrorBadInput \<mapsto> ()]"
         and ?m21.0 = "Some [AdapterErrorBadInput \<mapsto> (), AdapterErrorTimeout \<mapsto> ()]"]
    by simp
qed

text \<open>
  C5, as the specification words it, fails: the \<open>AdapterErrors\<close> of
  \<^verbatim>\<open>AdapterLabels{}\<close> is the nil map and that of
  \<^verbatim>\<open>AdapterLabels{AdapterErrors: map[AdapterError]struct{}{}}\<close> is the empty table;
  the two hold the same errors, none, and the fields differ.
\<close>

theorem AdapterErrors_nil_empty_counterexample:
  "gomap_keys (AdapterLabels_AdapterErrors (AdapterLabels_zero '''')) =
   gomap_keys (AdapterLabels_AdapterErrors
                 ((AdapterLabels_zero '''')\<lparr>AdapterLabels_AdapterErrors := Some Map.empty\<rparr>))
   \<and> AdapterLabels_AdapterErrors (AdapterLabels_zero '''') \<noteq>
      AdapterLabels_AdapterErrors
        ((AdapterLabels_zero '''')\<lparr>AdapterLabels_AdapterErrors := Some Map.empty\<rparr>)"
  by (simp add: AdapterLabels_zero_def)

lemma ImpLabels_flags_bij:
  "bij (\<lambda>l::ImpLabels. (BannerImps l, VideoImps l, AudioImps l, NativeImps l))"
proof (rule bijI)
  show "inj (\<lambda>l::ImpLabels. (BannerImps l, VideoImps l, AudioImps l, NativeImps l))"
    by (rule injI) simp
  show "surj (\<lambda>l::ImpLabels. (BannerImps l, VideoImps l, AudioImps l, NativeImps l))"
  proof (rule surjI)
    fix p :: "bool \<times> bool \<times> bool \<times> bool"
    show "(\<lambda>l::ImpLabels. (BannerImps l, VideoImps l, AudioImps l, NativeImps l))
            \<lparr>BannerImps = fst p, VideoImps = fst (snd p), AudioImps = fst (snd (snd p)),
             NativeImps = snd (snd (snd p))\<rparr> = p"
      by simp
  qed
qed

lemma ImpLabels_card: "card (UNIV :: ImpLabels set) = 16"
proof -
  have "card (UNIV :: ImpLabels set) = card (UNIV :: (bool \<times> bool \<times> bool \<times> bool) set)"
    using bij_betw_same_card [OF ImpLabels_flags_bij] .
  also have "\<dots> = 16"
    by (simp add: card_UNIV_bool card_cartesian_product flip: UNIV_Times_UNIV)
  finally show ?thesis .
qed

text \<open>
  C7. \<open>ImpLabels\<close> is four independent boolean flags: reading the four fields is a
  bijection between \<open>ImpLabels\<close> and the quadruples of booleans, so there are 16 values
  and every combination of flags is the reading of one of them, several flags set at once
  included. \<open>ImpTypes\<close> lists four media types, banner, video, audio and native, one for
  each flag.
\<close>

theorem ImpLabels_four_flags:
  "bij (\<lambda>l::ImpLabels. (BannerImps l, VideoImps l, AudioImps l, NativeImps l))
   \<and> card (UNIV :: ImpLabels set) = 16
   \<and> (\<exists>l::ImpLabels. BannerImps l = b \<and> VideoImps l = v \<and> AudioImps l = a \<and> NativeImps l = n)
   \<and> returned (ImpTypes h) =
       [ImpMediaType ''banner'', ImpMediaType ''video'', ImpMediaType ''audio'',
        ImpMediaType ''native'']
   \<and> length (returned (ImpTypes h)) = 4"
proof (intro conjI)
  show "bij (\<lambda>l::ImpLabels. (BannerImps l, VideoImps l, AudioImps l, NativeImps l))"
    by (rule ImpLabels_flags_bij)
  show "card (UNIV :: ImpLabels set) = 16"
    by (rule ImpLabels_card)
  have "BannerImps \<lparr>BannerImps = b, VideoImps = v, AudioImps = a, NativeImps = n\<rparr> = b
        \<and> VideoImps \<lparr>BannerImps = b, VideoImps = v, AudioImps = a, NativeImps = n\<rparr> = v
        \<and> AudioImps \<lparr>BannerImps = b, VideoImps = v, AudioImps = a, NativeImps = n\<rparr> = a
        \<and> NativeImps \<lparr>BannerImps = b, VideoImps = v, AudioImps = a, NativeImps = n\<rparr> = n"
    by simp
  then show "\<exists>l::ImpLabels. BannerImps l = b \<and> VideoImps l = v \<and> AudioImps l = a \<and> NativeImps l = n"
    by (rule exI)
  show "returned (ImpTypes h) =
       [ImpMediaType ''banner'', ImpMediaType ''video'', ImpMediaType ''audio'',
        ImpMediaType ''native'']"
    by (simp add: ImpTypes_def returned_new_slice constant_defs)
  show "length (returned (ImpTypes h)) = 4"
    by (simp add: ImpTypes_def returned_new_slice)
qed

subsection \<open>The recording interface\<close>

text \<open>
  C6. Every method of \<open>MetricsEngine\<close> has an empty result list: none of the seventeen
  operations returns an error or any other value to its caller.
\<close>

theorem MetricsEngine_no_results:
  "list_all (\<lambda>m. method_results m = []) MetricsEngine \<and> length MetricsEngine = 17"
  by (simp add: MetricsEngine_def)

end
